theory Spec2Isabelle
  imports Main "HOL-Library.Multiset"
begin

section \<open>The lyric synchronisation and translation pipeline of app.py\<close>

text \<open>
  The class \<^verbatim>\<open>SpotifyLyricsTranslator\<close> of \<^verbatim>\<open>src/app.py\<close> polls the playback state
  every 500 ms, fetches the time-stamped lyrics of a new track, translates them on a
  worker pool, keeps the translations in a bounded dictionary and marks the row of the
  tree view that is playing. The methods are embedded below with the names they have in
  the source. Widgets are reduced to the values that the pipeline reads back from them:
  the rows of the tree view, its selection and the three labels; a value read back from
  a row is the string that was stored there. Column widths, fonts, tooltips, the progress
  bar's float value and the login dialog are not modelled.
\<close>

subsection \<open>Exceptions\<close>

text \<open>
  The exceptions that the embedded code can raise. \<open>ServiceError\<close> stands for whatever a
  remote call (Spotify or the translation service) raises.
\<close>

datatype error =
  KeyError | IndexError | ValueError | TypeError | ZeroDivisionError
  | UnpicklingError | ServiceError

text \<open>
  A method that mutates the application returns the state it leaves behind together with
  the exception that escaped from it, if any: what was assigned before a \<^verbatim>\<open>raise\<close> stays
  assigned.
\<close>

definition then_do :: "error option \<times> 's \<Rightarrow> ('s \<Rightarrow> error option \<times> 's) \<Rightarrow> error option \<times> 's" where
  "then_do r f = (case r of (Some e, s) \<Rightarrow> (Some e, s) | (None, s) \<Rightarrow> f s)"

subsection \<open>Decimal text: \<^verbatim>\<open>str\<close>, \<^verbatim>\<open>int\<close>, \<^verbatim>\<open>:02d\<close> and \<^verbatim>\<open>split\<close>\<close>

definition digit_char :: "nat \<Rightarrow> char" where
  "digit_char d = char_of (48 + d)"

definition digit_val :: "char \<Rightarrow> nat" where
  "digit_val c = of_char c - 48"

definition is_digit :: "char \<Rightarrow> bool" where
  "is_digit c = (48 \<le> (of_char c :: nat) \<and> (of_char c :: nat) \<le> 57)"

fun str_nat :: "nat \<Rightarrow> string" where
  "str_nat n = (if n < 10 then [digit_char n] else str_nat (n div 10) @ [digit_char (n mod 10)])"

declare str_nat.simps [simp del]

text \<open>Python's \<^verbatim>\<open>str(i)\<close>, which is also what \<^verbatim>\<open>f"{i}"\<close> prints.\<close>

definition str_int :: "int \<Rightarrow> string" where
  "str_int i = (if i < 0 then CHR ''-'' # str_nat (nat (- i)) else str_nat (nat i))"

definition nat_of_digits :: "string \<Rightarrow> nat" where
  "nat_of_digits s = foldl (\<lambda>a c. 10 * a + digit_val c) 0 s"

text \<open>
  Python's \<^verbatim>\<open>int(s)\<close> on an optional minus sign followed by decimal digits; \<open>None\<close> is the
  \<^verbatim>\<open>ValueError\<close>. (Python also accepts a plus sign, surrounding blanks and underscores;
  no text that the program parses has them.)
\<close>

definition int_of_str :: "string \<Rightarrow> int option" where
  "int_of_str s =
     (case s of
        [] \<Rightarrow> None
      | c # cs \<Rightarrow>
          if c = CHR ''-''
          then (if cs \<noteq> [] \<and> list_all is_digit cs then Some (- int (nat_of_digits cs)) else None)
          else (if list_all is_digit s then Some (int (nat_of_digits s)) else None))"

text \<open>The format \<^verbatim>\<open>{n:02d}\<close>: zeros on the left up to a width of two.\<close>

definition fmt_02d :: "int \<Rightarrow> string" where
  "fmt_02d n = (let s = str_int n in replicate (2 - length s) CHR ''0'' @ s)"

text \<open>\<^verbatim>\<open>s.split(sep)\<close> for a separator of one character.\<close>

fun split_on :: "char \<Rightarrow> string \<Rightarrow> string list" where
  "split_on sep [] = [[]]"
| "split_on sep (x # xs) =
     (if x = sep then [] # split_on sep xs
      else (case split_on sep xs of [] \<Rightarrow> [[x]] | p # ps \<Rightarrow> (x # p) # ps))"

subsection \<open>Time labels\<close>

text \<open>
  \<^verbatim>\<open>ms_to_min_sec\<close> (lines 498-503). \<open>div\<close> and \<open>mod\<close> on \<open>int\<close> round towards minus
  infinity, as \<^verbatim>\<open>//\<close> and \<^verbatim>\<open>%\<close> do.
\<close>

definition ms_to_min_sec :: "int \<Rightarrow> string" where
  "ms_to_min_sec ms =
     (let minutes = ms div 60000;
          seconds = (ms mod 60000) div 1000
      in str_int minutes @ '':'' @ fmt_02d seconds)"

text \<open>
  The start time that \<^verbatim>\<open>update_current_lyric\<close> reads back from the first column of a row
  (line 489): \<^verbatim>\<open>int(v.split(":")[0]) * 60000 + int(v.split(":")[1]) * 1000\<close>, evaluated from
  left to right.
\<close>

definition start_time_of :: "string \<Rightarrow> error + int" where
  "start_time_of v =
     (let parts = split_on CHR '':'' v
      in case int_of_str (parts ! 0) of
           None \<Rightarrow> Inl ValueError
         | Some m \<Rightarrow>
             if length parts < 2 then Inl IndexError
             else (case int_of_str (parts ! 1) of
                     None \<Rightarrow> Inl ValueError
                   | Some sec \<Rightarrow> Inr (m * 60000 + sec * 1000)))"

subsection \<open>Lyric lines and their translation\<close>

text \<open>
  A line of the lyrics source is a dictionary of which the program reads \<^verbatim>\<open>startTimeMs\<close>
  and \<^verbatim>\<open>words\<close>; \<^verbatim>\<open>translate_line\<close> returns a dictionary with these two keys and
  \<^verbatim>\<open>translated\<close>.
\<close>

record lyric_line =
  startTimeMs :: int
  words :: string

record translated_line = lyric_line +
  translated :: string

text \<open>The remote translation call; \<open>None\<close> when it raises.\<close>

type_synonym translator = "string \<Rightarrow> string option"

text \<open>\<^verbatim>\<open>translate_line\<close> (lines 505-512).\<close>

definition translate_line :: "translator \<Rightarrow> lyric_line \<Rightarrow> translated_line" where
  "translate_line translator line =
     (let original_text = words line;
          translated_text =
            (case translator original_text of Some t \<Rightarrow> t | None \<Rightarrow> original_text)
      in \<lparr>startTimeMs = startTimeMs line, words = original_text, translated = translated_text\<rparr>)"

text \<open>
  The worker pool of \<^verbatim>\<open>translate_words\<close> (lines 517-519). One future is submitted per
  line, in the order of the lines; \<^verbatim>\<open>as_completed\<close> yields every future once, in the order
  in which the workers finish. That order is chosen by the scheduler and the network, so
  it is a parameter: \<open>order\<close> lists the indices of the futures as they complete.
\<close>

definition completion_order :: "nat \<Rightarrow> nat list \<Rightarrow> bool" where
  "completion_order n order = (mset order = mset [0..<n])"

definition translate_batch :: "translator \<Rightarrow> nat list \<Rightarrow> lyric_line list \<Rightarrow> translated_line list" where
  "translate_batch translator order lyrics =
     (let futures = map (translate_line translator) lyrics
      in map (\<lambda>i. futures ! i) order)"

subsection \<open>The translation cache\<close>

text \<open>
  \<^verbatim>\<open>self.lyrics_cache\<close> is a Python dictionary: its keys are distinct and iteration
  follows the order of first insertion. It is a list of pairs in that order.
\<close>

type_synonym lyrics_cache = "(string \<times> translated_line list) list"

text \<open>\<^verbatim>\<open>d[k] = v\<close>: an existing key keeps its place, a new key goes to the end.\<close>

fun dict_set :: "('k \<times> 'v) list \<Rightarrow> 'k \<Rightarrow> 'v \<Rightarrow> ('k \<times> 'v) list" where
  "dict_set [] k v = [(k, v)]"
| "dict_set ((k', v') # d) k v = (if k' = k then (k, v) # d else (k', v') # dict_set d k v)"

text \<open>\<^verbatim>\<open>d.pop(k)\<close> for a key that is present.\<close>

definition dict_pop :: "('k \<times> 'v) list \<Rightarrow> 'k \<Rightarrow> ('k \<times> 'v) list" where
  "dict_pop d k = filter (\<lambda>kv. fst kv \<noteq> k) d"

definition MAX_CACHE_SIZE :: nat where
  "MAX_CACHE_SIZE = 1000"

text \<open>
  Lines 520-523 of \<^verbatim>\<open>translate_words\<close>: store the batch, then drop the first key of the
  iteration order when the dictionary has grown beyond the capacity. The capacity is the
  module constant \<^verbatim>\<open>MAX_CACHE_SIZE\<close>; it is a parameter here so that small capacities can be
  evaluated.
\<close>

definition cache_store :: "nat \<Rightarrow> ('k \<times> 'v) list \<Rightarrow> 'k \<Rightarrow> 'v \<Rightarrow> ('k \<times> 'v) list" where
  "cache_store cap cache song_id translated_lyrics =
     (let cache' = dict_set cache song_id translated_lyrics
      in if length cache' > cap
         then (case cache' of [] \<Rightarrow> cache' | (oldest, _) # _ \<Rightarrow> dict_pop cache' oldest)
         else cache')"

text \<open>
  The file \<^verbatim>\<open>lyrics_cache.pkl\<close>: absent, a pickle of a cache as \<^verbatim>\<open>save_cache\<close> writes it,
  or bytes that \<^verbatim>\<open>pickle.load\<close> rejects.
\<close>

datatype store = Missing | Pickled lyrics_cache | Corrupt

subsection \<open>Replies of the remote services\<close>

text \<open>
  The fields that the program reads from the reply of \<^verbatim>\<open>get_current_song\<close>; \<open>artists\<close>
  holds the names of the artists and may be empty.
\<close>

record playback =
  item_id :: string
  item_name :: string
  artists :: "string list"
  album_name :: string
  duration_ms :: int
  is_playing :: bool
  progress_ms :: int

text \<open>
  The reply of \<^verbatim>\<open>get_lyrics\<close>: a dictionary that may or may not have the key \<^verbatim>\<open>lyrics\<close>,
  whose value may or may not have the keys \<^verbatim>\<open>lines\<close> and \<^verbatim>\<open>language\<close>.
\<close>

record lyrics_body =
  lines_key :: "lyric_line list option"
  language_key :: "string option"

record lyrics_json =
  lyrics_key :: "lyrics_body option"

text \<open>
  What the services answer during one tick of the poll loop: to the playback query of
  \<^verbatim>\<open>get_current_playback_position\<close>, to the second playback query that \<^verbatim>\<open>update_lyrics\<close>
  makes, and to the lyrics query. \<open>Inl\<close> is a raised exception, \<open>Inr None\<close> a reply of
  \<^verbatim>\<open>None\<close>.
\<close>

record tick_env =
  song_reply :: "error + playback option"
  song_reply_again :: "error + playback option"
  lyrics_reply :: "error + lyrics_json option"

subsection \<open>The application state\<close>

record row =
  time_col :: string
  original_col :: string
  translated_col :: string

record job =
  job_lyrics :: "lyric_line list"
  job_song_name :: string
  job_song_id :: string

text \<open>
  \<open>tree\<close> is the list of rows of the tree view, an item being its position; \<open>selection\<close>
  is the selected item; \<open>threads\<close> are the calls of \<^verbatim>\<open>translate_words\<close> that were started
  and \<open>timers\<close> counts the pending \<^verbatim>\<open>root.after(500, self.update_display)\<close> callbacks.
\<close>

record app =
  song_label :: string
  album_label :: string
  time_label :: string
  tree :: "row list"
  selection :: "nat option"
  current_song_id :: "string option"
  translation_complete :: bool
  language :: string
  lyrics_cache :: lyrics_cache
  cache_file :: store
  threads :: "job list"
  timers :: nat

subsection \<open>Start-up\<close>

text \<open>
  The end of \<^verbatim>\<open>initialize_main_gui\<close> (lines 412-426). \<^verbatim>\<open>pickle.load\<close> is not guarded, so
  its exception leaves the method before \<^verbatim>\<open>self.lyrics_cache\<close> is bound and before the first
  tick is scheduled: there is no running application then.
\<close>

definition load_cache :: "store \<Rightarrow> error + lyrics_cache" where
  "load_cache f =
     (case f of
        Missing \<Rightarrow> Inr []
      | Pickled c \<Rightarrow> Inr c
      | Corrupt \<Rightarrow> Inl UnpicklingError)"

definition initialize_main_gui :: "store \<Rightarrow> error + app" where
  "initialize_main_gui f =
     (case load_cache f of
        Inl e \<Rightarrow> Inl e
      | Inr c \<Rightarrow>
          Inr \<lparr>song_label = ''Loading...'', album_label = [], time_label = ''0:00 / 0:00'',
               tree = [], selection = None, current_song_id = None,
               translation_complete = False, language = [], lyrics_cache = c,
               cache_file = f, threads = [], timers = 1\<rparr>)"

subsection \<open>Showing translations\<close>

text \<open>
  \<^verbatim>\<open>update_translations\<close> (lines 560-572). The inner loop takes the first translated line
  whose time label and original text equal those of the row.
\<close>

fun find_translation :: "translated_line list \<Rightarrow> row \<Rightarrow> string option" where
  "find_translation [] r = None"
| "find_translation (lyric # rest) r =
     (if ms_to_min_sec (startTimeMs lyric) = time_col r \<and> words lyric = original_col r
      then Some (translated lyric)
      else find_translation rest r)"

definition set_translation :: "translated_line list \<Rightarrow> row \<Rightarrow> row" where
  "set_translation translated_lyrics r =
     (case find_translation translated_lyrics r of
        None \<Rightarrow> r
      | Some t \<Rightarrow> r\<lparr>translated_col := t\<rparr>)"

definition update_translations :: "translated_line list \<Rightarrow> app \<Rightarrow> error option \<times> app" where
  "update_translations translated_lyrics s =
     (let s1 = s\<lparr>tree := map (set_translation translated_lyrics) (tree s)\<rparr>
      in case tree s1 of
           [] \<Rightarrow> (None, s1)
         | first_item # others \<Rightarrow>
             (case translated_lyrics of
                [] \<Rightarrow> (Some IndexError, s1)
              | lyric0 # _ \<Rightarrow>
                  (None, s1\<lparr>tree := first_item\<lparr>translated_col := translated lyric0\<rparr> # others\<rparr>)))"

subsection \<open>The translation thread\<close>

text \<open>
  \<^verbatim>\<open>translate_words\<close> (lines 514-527), run on the state that the application has when the
  batch is complete. The translation of the song name is outside any \<^verbatim>\<open>try\<close>. The callback
  is \<^verbatim>\<open>update_translations\<close>, the only one that the program passes.
\<close>

definition translate_words ::
  "translator \<Rightarrow> nat list \<Rightarrow> lyric_line list \<Rightarrow> string \<Rightarrow> string \<Rightarrow> app \<Rightarrow> error option \<times> app" where
  "translate_words translator order lyrics song_name song_id s =
     (case translator song_name of
        None \<Rightarrow> (Some ServiceError, s)
      | Some translated_song_name \<Rightarrow>
          (let translated_lyrics = translate_batch translator order lyrics;
               cache' = cache_store MAX_CACHE_SIZE (lyrics_cache s) song_id translated_lyrics;
               s1 = s\<lparr>lyrics_cache := cache', cache_file := Pickled cache'\<rparr>
           in then_do (update_translations translated_lyrics s1)
                (\<lambda>s2. (None, s2\<lparr>translation_complete := True\<rparr>))))"

subsection \<open>Fetching the lyrics of a new track\<close>

definition row_of :: "lyric_line \<Rightarrow> row" where
  "row_of lyric =
     \<lparr>time_col = ms_to_min_sec (startTimeMs lyric), original_col = words lyric, translated_col = []\<rparr>"

definition placeholder :: row where
  "placeholder = \<lparr>time_col = ''0:00'', original_col = ''(No lyrics available)'', translated_col = []\<rparr>"

text \<open>
  Line 535: the lines of the reply when it is truthy and has both keys, \<^verbatim>\<open>None\<close>
  otherwise; the body is returned with them because line 544 reads its language.
\<close>

definition lyrics_data_of :: "lyrics_json option \<Rightarrow> (lyrics_body \<times> lyric_line list) option" where
  "lyrics_data_of lyrics =
     (case lyrics of
        None \<Rightarrow> None
      | Some j \<Rightarrow>
          (case lyrics_key j of
             None \<Rightarrow> None
           | Some body \<Rightarrow>
               (case lines_key body of
                  None \<Rightarrow> None
                | Some ls \<Rightarrow> Some (body, ls))))"

text \<open>
  \<^verbatim>\<open>update_lyrics\<close> (lines 529-558). The test \<^verbatim>\<open>if lyrics_data:\<close> fails for \<^verbatim>\<open>None\<close> and for
  an empty list. Deleting all rows also empties the selection.
\<close>

definition update_lyrics :: "tick_env \<Rightarrow> app \<Rightarrow> error option \<times> app" where
  "update_lyrics env s =
     (case song_reply_again env of
        Inl e \<Rightarrow> (Some e, s)
      | Inr None \<Rightarrow> (Some TypeError, s)
      | Inr (Some current_song) \<Rightarrow>
          (case artists current_song of
             [] \<Rightarrow> (Some IndexError, s)
           | artist_name # _ \<Rightarrow>
               (case lyrics_reply env of
                  Inl e \<Rightarrow> (Some e, s)
                | Inr lyrics \<Rightarrow>
                    (let song_id = item_id current_song;
                         song_name = item_name current_song;
                         s1 = s\<lparr>song_label := song_name @ '' - '' @ artist_name,
                                tree := [], selection := None\<rparr>
                     in case lyrics_data_of lyrics of
                          Some (body, l # ls) \<Rightarrow>
                            (case language_key body of
                               None \<Rightarrow> (Some KeyError, s1)
                             | Some detected_lang \<Rightarrow>
                                 (let s2 = s1\<lparr>language := detected_lang,
                                              tree := map row_of (l # ls),
                                              translation_complete := False\<rparr>
                                  in case map_of (lyrics_cache s2) song_id of
                                       Some cached \<Rightarrow> update_translations cached s2
                                     | None \<Rightarrow>
                                         (None, s2\<lparr>threads := threads s2 @
                                            [\<lparr>job_lyrics = l # ls, job_song_name = song_name,
                                              job_song_id = song_id\<rparr>]\<rparr>)))
                        | _ \<Rightarrow> (None, s1\<lparr>tree := [placeholder]\<rparr>)))))"

subsection \<open>The current line\<close>

text \<open>
  The loop of \<^verbatim>\<open>update_current_lyric\<close> (lines 486-493) over the rows from item \<open>i\<close> on:
  it remembers the last row whose start time is at most the position and stops at the
  first row that starts later.
\<close>

fun scan_rows :: "row list \<Rightarrow> nat \<Rightarrow> int \<Rightarrow> nat option \<Rightarrow> error + nat option" where
  "scan_rows [] i current_position last_index = Inr last_index"
| "scan_rows (r # rs) i current_position last_index =
     (case start_time_of (time_col r) of
        Inl e \<Rightarrow> Inl e
      | Inr start_time \<Rightarrow>
          if start_time \<le> current_position
          then scan_rows rs (Suc i) current_position (Some i)
          else Inr last_index)"

text \<open>
  \<^verbatim>\<open>update_current_lyric\<close> (lines 484-496). An item identifier is a non-empty string, so
  the test \<^verbatim>\<open>if last_index:\<close> fails only for \<^verbatim>\<open>None\<close>; then nothing is selected anew and
  the selection stays as it is.
\<close>

definition update_current_lyric :: "int \<Rightarrow> app \<Rightarrow> error option \<times> app" where
  "update_current_lyric current_position s =
     (case scan_rows (tree s) 0 current_position None of
        Inl e \<Rightarrow> (Some e, s)
      | Inr None \<Rightarrow> (None, s)
      | Inr (Some last_index) \<Rightarrow> (None, s\<lparr>selection := Some last_index\<rparr>))"

subsection \<open>The poll loop\<close>

text \<open>\<^verbatim>\<open>get_current_playback_position\<close> (lines 435-442): every exception is caught.\<close>

definition get_current_playback_position :: "error + playback option \<Rightarrow> playback option \<times> int" where
  "get_current_playback_position reply =
     (case reply of
        Inl e \<Rightarrow> (None, 0)
      | Inr None \<Rightarrow> (None, 0)
      | Inr (Some current_song) \<Rightarrow> (Some current_song, progress_ms current_song))"

text \<open>
  \<^verbatim>\<open>update_display\<close> (lines 444-482). The next tick is scheduled by the last statement, so
  only when no exception has left the method before.
\<close>

definition update_display :: "tick_env \<Rightarrow> app \<Rightarrow> error option \<times> app" where
  "update_display env s =
     (case get_current_playback_position (song_reply env) of
        (None, current_position) \<Rightarrow>
          (None, s\<lparr>song_label := ''No song playing'', album_label := [],
                   time_label := ''0:00 / 0:00'', timers := timers s + 1\<rparr>)
      | (Some current_song, current_position) \<Rightarrow>
          (case artists current_song of
             [] \<Rightarrow> (Some IndexError, s)
           | artist_name # _ \<Rightarrow>
               (let song_id = item_id current_song;
                    duration = duration_ms current_song;
                    s1 = s\<lparr>song_label := item_name current_song @ '' - '' @ artist_name,
                           album_label := album_name current_song,
                           time_label := ms_to_min_sec current_position @ '' / '' @
                                         ms_to_min_sec duration\<rparr>
                in if duration = 0 then (Some ZeroDivisionError, s1)
                   else then_do
                          (if Some song_id \<noteq> current_song_id s1
                           then update_lyrics env (s1\<lparr>current_song_id := Some song_id\<rparr>)
                           else (None, s1))
                          (\<lambda>s2. then_do (update_current_lyric current_position s2)
                             (\<lambda>s3. (None, s3\<lparr>timers := timers s3 + 1\<rparr>))))))"

text \<open>
  The event loop runs \<^verbatim>\<open>update_display\<close> once for each pending timer, which the call
  consumes; \<open>envs\<close> are the replies of the services tick by tick. With no timer pending
  the method is never called again.
\<close>

fun poll_loop :: "tick_env list \<Rightarrow> app \<Rightarrow> app" where
  "poll_loop [] s = s"
| "poll_loop (env # envs) s =
     (if timers s = 0 then s
      else poll_loop envs (snd (update_display env (s\<lparr>timers := timers s - 1\<rparr>))))"

section \<open>Properties\<close>

subsection \<open>Time labels are whole seconds\<close>






















subsection \<open>One line\<close>

text \<open>
  Claim C10. \<^verbatim>\<open>translate_line\<close> returns the offset and the original text of the line it
  was given, for every translator, that is whether the remote call returns or raises; the
  third field of the result is the text returned by the call, or the original text when
  the call raises.
\<close>

theorem translate_line_frame:
  "startTimeMs (translate_line tr line) = startTimeMs line
   \<and> words (translate_line tr line) = words line
   \<and> translated (translate_line tr line) =
        (case tr (words line) of Some t \<Rightarrow> t | None \<Rightarrow> words line)"
  by (simp add: translate_line_def Let_def)

subsection \<open>The batch\<close>

lemma translate_batch_mset:
  assumes "completion_order (length lyrics) order"
  shows "mset (translate_batch tr order lyrics) = mset (map (translate_line tr) lyrics)"
proof -
  let ?futures = "map (translate_line tr) lyrics"
  have "mset (map (\<lambda>i. ?futures ! i) order) = image_mset (\<lambda>i. ?futures ! i) (mset order)"
    by simp
  also have "\<dots> = image_mset (\<lambda>i. ?futures ! i) (mset [0..<length ?futures])"
    using assms by (simp add: completion_order_def)
  also have "\<dots> = mset (map (\<lambda>i. ?futures ! i) [0..<length ?futures])"
    by simp
  also have "\<dots> = mset ?futures"
    by (simp only: map_nth)
  finally show ?thesis by (simp add: translate_batch_def Let_def)
qed

text \<open>
  Claim C6. Whatever the order in which the workers finish, the batch holds the result of
  \<^verbatim>\<open>translate_line\<close> for every line that was given, once each; the result of a line
  depends on that line alone. A line whose remote call raises is in the batch with its own
  text as translation, and a line whose call returns is there with the text returned. The
  batch has no other outcome: no exception and no timeout ends it early.
\<close>

theorem line_failure_falls_back:
  assumes "completion_order (length lyrics) order"
  shows "mset (translate_batch tr order lyrics) = mset (map (translate_line tr) lyrics)
       \<and> length (translate_batch tr order lyrics) = length lyrics
       \<and> (\<forall>line \<in> set lyrics. tr (words line) = None \<longrightarrow>
            \<lparr>startTimeMs = startTimeMs line, words = words line, translated = words line\<rparr>
              \<in> set (translate_batch tr order lyrics))
       \<and> (\<forall>line \<in> set lyrics. \<forall>t. tr (words line) = Some t \<longrightarrow>
            \<lparr>startTimeMs = startTimeMs line, words = words line, translated = t\<rparr>
              \<in> set (translate_batch tr order lyrics))"
proof -
  have m: "mset (translate_batch tr order lyrics) = mset (map (translate_line tr) lyrics)"
    using assms by (rule translate_batch_mset)
  then have s: "set (translate_batch tr order lyrics) = translate_line tr ` set lyrics"
    using mset_eq_setD by fastforce
  have l: "length (translate_batch tr order lyrics) = length lyrics"
    using mset_eq_length [OF m] by simp
  have f: "\<forall>line \<in> set lyrics. tr (words line) = None \<longrightarrow>
            \<lparr>startTimeMs = startTimeMs line, words = words line, translated = words line\<rparr>
              \<in> set (translate_batch tr order lyrics)"
  proof (intro ballI impI)
    fix line assume "line \<in> set lyrics" and "tr (words line) = None"
    then have "translate_line tr line \<in> translate_line tr ` set lyrics"
      and "translate_line tr line =
        \<lparr>startTimeMs = startTimeMs line, words = words line, translated = words line\<rparr>"
      by (simp, simp add: translate_line_def Let_def)
    with s show "\<lparr>startTimeMs = startTimeMs line, words = words line, translated = words line\<rparr>
              \<in> set (translate_batch tr order lyrics)" by simp
  qed
  have g: "\<forall>line \<in> set lyrics. \<forall>t. tr (words line) = Some t \<longrightarrow>
            \<lparr>startTimeMs = startTimeMs line, words = words line, translated = t\<rparr>
              \<in> set (translate_batch tr order lyrics)"
  proof (intro ballI allI impI)
    fix line t assume "line \<in> set lyrics" and "tr (words line) = Some t"
    then have "translate_line tr line \<in> translate_line tr ` set lyrics"
      and "translate_line tr line =
        \<lparr>startTimeMs = startTimeMs line, words = words line, translated = t\<rparr>"
      by (simp, simp add: translate_line_def Let_def)
    with s show "\<lparr>startTimeMs = startTimeMs line, words = words line, translated = t\<rparr>
              \<in> set (translate_batch tr order lyrics)" by simp
  qed
  from m l f g show ?thesis by blast
qed

theorem line_failure_falls_back_witness:
  "completion_order (length [\<lparr>startTimeMs = 0, words = ''a''\<rparr>, \<lparr>startTimeMs = 1000, words = ''b''\<rparr>, \<lparr>startTimeMs = 2000, words = ''c''\<rparr>, \<lparr>startTimeMs = 3000, words = ''d''\<rparr>, \<lparr>startTimeMs = 4000, words = ''e''\<rparr>]) [3, 0, 4, 1, 2]
   \<and> \<lparr>startTimeMs = 2000, words = ''c''\<rparr> \<in> set [\<lparr>startTimeMs = 0, words = ''a''\<rparr>, \<lparr>startTimeMs = 1000, words = ''b''\<rparr>, \<lparr>startTimeMs = 2000, words = ''c''\<rparr>, \<lparr>startTimeMs = 3000, words = ''d''\<rparr>, \<lparr>startTimeMs = 4000, words = ''e''\<rparr>]
   \<and> (\<lambda>w. if w = ''c'' then None else Some (w @ ''!'')) (words \<lparr>startTimeMs = 2000, words = ''c''\<rparr>) = None
   \<and> \<lparr>startTimeMs = 3000, words = ''d''\<rparr> \<in> set [\<lparr>startTimeMs = 0, words = ''a''\<rparr>, \<lparr>startTimeMs = 1000, words = ''b''\<rparr>, \<lparr>startTimeMs = 2000, words = ''c''\<rparr>, \<lparr>startTimeMs = 3000, words = ''d''\<rparr>, \<lparr>startTimeMs = 4000, words = ''e''\<rparr>]
   \<and> (\<lambda>w. if w = ''c'' then None else Some (w @ ''!'')) (words \<lparr>startTimeMs = 3000, words = ''d''\<rparr>) = Some ''d!''
   \<and> length (translate_batch (\<lambda>w. if w = ''c'' then None else Some (w @ ''!'')) [3, 0, 4, 1, 2] [\<lparr>startTimeMs = 0, words = ''a''\<rparr>, \<lparr>startTimeMs = 1000, words = ''b''\<rparr>, \<lparr>startTimeMs = 2000, words = ''c''\<rparr>, \<lparr>startTimeMs = 3000, words = ''d''\<rparr>, \<lparr>startTimeMs = 4000, words = ''e''\<rparr>]) = 5
   \<and> \<lparr>startTimeMs = 2000, words = ''c'', translated = ''c''\<rparr> \<in> set (translate_batch (\<lambda>w. if w = ''c'' then None else Some (w @ ''!'')) [3, 0, 4, 1, 2] [\<lparr>startTimeMs = 0, words = ''a''\<rparr>, \<lparr>startTimeMs = 1000, words = ''b''\<rparr>, \<lparr>startTimeMs = 2000, words = ''c''\<rparr>, \<lparr>startTimeMs = 3000, words = ''d''\<rparr>, \<lparr>startTimeMs = 4000, words = ''e''\<rparr>])
   \<and> \<lparr>startTimeMs = 3000, words = ''d'', translated = ''d!''\<rparr> \<in> set (translate_batch (\<lambda>w. if w = ''c'' then None else Some (w @ ''!'')) [3, 0, 4, 1, 2] [\<lparr>startTimeMs = 0, words = ''a''\<rparr>, \<lparr>startTimeMs = 1000, words = ''b''\<rparr>, \<lparr>startTimeMs = 2000, words = ''c''\<rparr>, \<lparr>startTimeMs = 3000, words = ''d''\<rparr>, \<lparr>startTimeMs = 4000, words = ''e''\<rparr>])"
proof -
  have h: "completion_order (length [\<lparr>startTimeMs = 0, words = ''a''\<rparr>, \<lparr>startTimeMs = 1000, words = ''b''\<rparr>, \<lparr>startTimeMs = 2000, words = ''c''\<rparr>, \<lparr>startTimeMs = 3000, words = ''d''\<rparr>, \<lparr>startTimeMs = 4000, words = ''e''\<rparr>]) [3, 0, 4, 1, 2]"
    by code_simp
  have c: "\<lparr>startTimeMs = 2000, words = ''c''\<rparr> \<in> set [\<lparr>startTimeMs = 0, words = ''a''\<rparr>, \<lparr>startTimeMs = 1000, words = ''b''\<rparr>, \<lparr>startTimeMs = 2000, words = ''c''\<rparr>, \<lparr>startTimeMs = 3000, words = ''d''\<rparr>, \<lparr>startTimeMs = 4000, words = ''e''\<rparr>]
      \<and> (\<lambda>w. if w = ''c'' then None else Some (w @ ''!'')) (words \<lparr>startTimeMs = 2000, words = ''c''\<rparr>) = None"
    by simp
  have d: "\<lparr>startTimeMs = 3000, words = ''d''\<rparr> \<in> set [\<lparr>startTimeMs = 0, words = ''a''\<rparr>, \<lparr>startTimeMs = 1000, words = ''b''\<rparr>, \<lparr>startTimeMs = 2000, words = ''c''\<rparr>, \<lparr>startTimeMs = 3000, words = ''d''\<rparr>, \<lparr>startTimeMs = 4000, words = ''e''\<rparr>]
      \<and> (\<lambda>w. if w = ''c'' then None else Some (w @ ''!'')) (words \<lparr>startTimeMs = 3000, words = ''d''\<rparr>) = Some ''d!''"
    by simp
  note t = line_failure_falls_back [OF h, of "(\<lambda>w. if w = ''c'' then None else Some (w @ ''!''))"]
  from t have "length (translate_batch (\<lambda>w. if w = ''c'' then None else Some (w @ ''!'')) [3, 0, 4, 1, 2] [\<lparr>startTimeMs = 0, words = ''a''\<rparr>, \<lparr>startTimeMs = 1000, words = ''b''\<rparr>, \<lparr>startTimeMs = 2000, words = ''c''\<rparr>, \<lparr>startTimeMs = 3000, words = ''d''\<rparr>, \<lparr>startTimeMs = 4000, words = ''e''\<rparr>]) = length [\<lparr>startTimeMs = 0, words = ''a''\<rparr>, \<lparr>startTimeMs = 1000, words = ''b''\<rparr>, \<lparr>startTimeMs = 2000, words = ''c''\<rparr>, \<lparr>startTimeMs = 3000, words = ''d''\<rparr>, \<lparr>startTimeMs = 4000, words = ''e''\<rparr>]"
    by blast
  then have l: "length (translate_batch (\<lambda>w. if w = ''c'' then None else Some (w @ ''!'')) [3, 0, 4, 1, 2] [\<lparr>startTimeMs = 0, words = ''a''\<rparr>, \<lparr>startTimeMs = 1000, words = ''b''\<rparr>, \<lparr>startTimeMs = 2000, words = ''c''\<rparr>, \<lparr>startTimeMs = 3000, words = ''d''\<rparr>, \<lparr>startTimeMs = 4000, words = ''e''\<rparr>]) = 5"
    by simp
  from t c have fc: "\<lparr>startTimeMs = startTimeMs \<lparr>startTimeMs = 2000, words = ''c''\<rparr>,
        words = words \<lparr>startTimeMs = 2000, words = ''c''\<rparr>,
        translated = words \<lparr>startTimeMs = 2000, words = ''c''\<rparr>\<rparr> \<in> set (translate_batch (\<lambda>w. if w = ''c'' then None else Some (w @ ''!'')) [3, 0, 4, 1, 2] [\<lparr>startTimeMs = 0, words = ''a''\<rparr>, \<lparr>startTimeMs = 1000, words = ''b''\<rparr>, \<lparr>startTimeMs = 2000, words = ''c''\<rparr>, \<lparr>startTimeMs = 3000, words = ''d''\<rparr>, \<lparr>startTimeMs = 4000, words = ''e''\<rparr>])"
    by blast
  from t d have fd: "\<lparr>startTimeMs = startTimeMs \<lparr>startTimeMs = 3000, words = ''d''\<rparr>,
        words = words \<lparr>startTimeMs = 3000, words = ''d''\<rparr>,
        translated = ''d!''\<rparr> \<in> set (translate_batch (\<lambda>w. if w = ''c'' then None else Some (w @ ''!'')) [3, 0, 4, 1, 2] [\<lparr>startTimeMs = 0, words = ''a''\<rparr>, \<lparr>startTimeMs = 1000, words = ''b''\<rparr>, \<lparr>startTimeMs = 2000, words = ''c''\<rparr>, \<lparr>startTimeMs = 3000, words = ''d''\<rparr>, \<lparr>startTimeMs = 4000, words = ''e''\<rparr>])"
    by blast
  from fc have fc': "\<lparr>startTimeMs = 2000, words = ''c'', translated = ''c''\<rparr> \<in> set (translate_batch (\<lambda>w. if w = ''c'' then None else Some (w @ ''!'')) [3, 0, 4, 1, 2] [\<lparr>startTimeMs = 0, words = ''a''\<rparr>, \<lparr>startTimeMs = 1000, words = ''b''\<rparr>, \<lparr>startTimeMs = 2000, words = ''c''\<rparr>, \<lparr>startTimeMs = 3000, words = ''d''\<rparr>, \<lparr>startTimeMs = 4000, words = ''e''\<rparr>])"
    by simp
  from fd have fd': "\<lparr>startTimeMs = 3000, words = ''d'', translated = ''d!''\<rparr> \<in> set (translate_batch (\<lambda>w. if w = ''c'' then None else Some (w @ ''!'')) [3, 0, 4, 1, 2] [\<lparr>startTimeMs = 0, words = ''a''\<rparr>, \<lparr>startTimeMs = 1000, words = ''b''\<rparr>, \<lparr>startTimeMs = 2000, words = ''c''\<rparr>, \<lparr>startTimeMs = 3000, words = ''d''\<rparr>, \<lparr>startTimeMs = 4000, words = ''e''\<rparr>])"
    by simp
  from h c d l fc' fd' show ?thesis by blast
qed

text \<open>
  Claim C1. The batch is collected with \<^verbatim>\<open>as_completed\<close> and is neither sorted nor indexed
  afterwards, so the list that goes to the cache and to the callback is in the order of
  completion. With two lines of which the second is translated first, the list starts with
  the line at 1000 ms; \<^verbatim>\<open>update_translations\<close>, which writes the translation of the
  first element of the list into the first row, then shows the translation of the second
  line in the row of the first.
\<close>

theorem batch_in_completion_order:
  "completion_order (length [\<lparr>startTimeMs = 0, words = ''a''\<rparr>, \<lparr>startTimeMs = 1000, words = ''b''\<rparr>]) [1, 0]
   \<and> map startTimeMs (translate_batch [''a'' \<mapsto> ''A'', ''b'' \<mapsto> ''B'', ''t'' \<mapsto> ''T''] [1, 0] [\<lparr>startTimeMs = 0, words = ''a''\<rparr>, \<lparr>startTimeMs = 1000, words = ''b''\<rparr>]) = [1000, 0]
   \<and> map_of (lyrics_cache (snd (translate_words [''a'' \<mapsto> ''A'', ''b'' \<mapsto> ''B'', ''t'' \<mapsto> ''T''] [1, 0] [\<lparr>startTimeMs = 0, words = ''a''\<rparr>, \<lparr>startTimeMs = 1000, words = ''b''\<rparr>] ''t'' ''X'' ((projr (initialize_main_gui Missing))\<lparr>tree := map row_of [\<lparr>startTimeMs = 0, words = ''a''\<rparr>, \<lparr>startTimeMs = 1000, words = ''b''\<rparr>]\<rparr>)))) ''X'' =
        Some [\<lparr>startTimeMs = 1000, words = ''b'', translated = ''B''\<rparr>,
              \<lparr>startTimeMs = 0, words = ''a'', translated = ''A''\<rparr>]
   \<and> tree (snd (translate_words [''a'' \<mapsto> ''A'', ''b'' \<mapsto> ''B'', ''t'' \<mapsto> ''T''] [1, 0] [\<lparr>startTimeMs = 0, words = ''a''\<rparr>, \<lparr>startTimeMs = 1000, words = ''b''\<rparr>] ''t'' ''X'' ((projr (initialize_main_gui Missing))\<lparr>tree := map row_of [\<lparr>startTimeMs = 0, words = ''a''\<rparr>, \<lparr>startTimeMs = 1000, words = ''b''\<rparr>]\<rparr>))) =
        [\<lparr>time_col = ''0:00'', original_col = ''a'', translated_col = ''B''\<rparr>,
         \<lparr>time_col = ''0:01'', original_col = ''b'', translated_col = ''B''\<rparr>]"
  by code_simp

subsection \<open>The cache\<close>

lemma length_dict_set:
  "length (dict_set d k v) = (if k \<in> fst ` set d then length d else Suc (length d))"
  by (induction d; force)

lemma keys_dict_set:
  "map fst (dict_set d k v) = (if k \<in> fst ` set d then map fst d else map fst d @ [k])"
  by (induction d; force)

lemma dict_set_new: "k \<notin> fst ` set d \<Longrightarrow> dict_set d k v = d @ [(k, v)]"
  by (induction d) auto

lemma map_of_dict_set: "map_of (dict_set d k v) = (map_of d)(k \<mapsto> v)"
  by (induction d) (auto simp add: fun_eq_iff)

lemma dict_pop_first: "distinct (map fst (x # d)) \<Longrightarrow> dict_pop (x # d) (fst x) = d"
  by (auto simp add: dict_pop_def filter_id_conv image_iff)

lemma length_dict_pop_first: "length (dict_pop (x # d) (fst x)) \<le> length d"
  by (simp add: dict_pop_def)

lemma cache_store_within:
  assumes "length cache \<le> cap"
  shows "length (cache_store cap cache k v) \<le> cap"
proof (cases "dict_set cache k v")
  case Nil
  then show ?thesis by (simp add: cache_store_def)
next
  case (Cons x d)
  have "length (dict_set cache k v) \<le> Suc cap"
    using assms by (simp add: length_dict_set)
  with Cons have "length d \<le> cap" by simp
  with Cons length_dict_pop_first [of x d] show ?thesis
    by (cases x) (auto simp add: cache_store_def Let_def)
qed

lemma cache_store_present:
  assumes "k \<in> fst ` set cache" and "length cache \<le> cap"
  shows "cache_store cap cache k v = dict_set cache k v"
  using assms by (simp add: cache_store_def length_dict_set)

lemma cache_store_room:
  assumes "length cache < cap" 
  shows "cache_store cap cache k v = dict_set cache k v"
  using assms by (simp add: cache_store_def length_dict_set)

lemma cache_store_full:
  assumes "distinct (map fst cache)" and "length cache = cap" and "k \<notin> fst ` set cache"
  shows "cache_store cap cache k v = tl (cache @ [(k, v)])"
proof -
  have d: "distinct (map fst (cache @ [(k, v)]))"
    using assms by auto
  obtain x r where xr: "cache @ [(k, v)] = x # r"
    by (cases "cache @ [(k, v)]") auto
  with d have "dict_pop (x # r) (fst x) = r"
    using dict_pop_first [of x r] by simp
  moreover have "length r = cap"
    using arg_cong [OF xr, of length] assms by simp
  ultimately show ?thesis
    using xr assms by (cases x) (simp add: cache_store_def Let_def dict_set_new)
qed


lemma puts_within:
  "length cache \<le> cap \<Longrightarrow> length (foldl (\<lambda>c (k, v). cache_store cap c k v) cache puts) \<le> cap"
  by (induction puts arbitrary: cache) (auto simp add: cache_store_within)

lemma puts_from_empty:
  assumes "distinct (map fst kvs)"
  shows "foldl (\<lambda>c (k, v). cache_store cap c k v) [] kvs = drop (length kvs - cap) kvs"
  using assms
proof (induction kvs rule: rev_induct)
  case Nil
  then show ?case by simp
next
  case (snoc kv kvs)
  obtain k v where kv: "kv = (k, v)" by (cases kv)
  let ?n = "length kvs"
  let ?c = "drop (?n - cap) kvs"
  from snoc have ih: "foldl (\<lambda>c (k, v). cache_store cap c k v) [] kvs = ?c"
    by simp
  from snoc.prems kv have fresh: "k \<notin> fst ` set kvs" and dist: "distinct (map fst kvs)"
    by auto
  have dc: "distinct (map fst ?c)"
    using dist by (simp add: drop_map [symmetric])
  have fc: "k \<notin> fst ` set ?c"
    using fresh set_drop_subset [of "?n - cap" kvs] by auto
  show ?case
  proof (cases "?n < cap")
    case True
    then have "cache_store cap ?c k v = kvs @ [(k, v)]"
      using fresh by (simp add: cache_store_room dict_set_new)
    with True ih kv show ?thesis by simp
  next
    case False
    then have "length ?c = cap" by simp
    then have "cache_store cap ?c k v = tl (?c @ [(k, v)])"
      using dc fc by (simp add: cache_store_full)
    also have "?c @ [(k, v)] = drop (?n - cap) (kvs @ [(k, v)])"
      by simp
    also have "tl \<dots> = drop (Suc (?n - cap)) (kvs @ [(k, v)])"
      by (simp only: tl_drop drop_Suc)
    also have "Suc (?n - cap) = length (kvs @ [kv]) - cap"
      using False by simp
    finally show ?thesis using ih kv by simp
  qed
qed

lemma lyrics_cache_update_translations:
  "lyrics_cache (snd (update_translations tls s)) = lyrics_cache s"
  by (simp add: update_translations_def Let_def split: list.splits)

lemma lyrics_cache_update_lyrics:
  "lyrics_cache (snd (update_lyrics env s)) = lyrics_cache s"
  by (simp add: update_lyrics_def Let_def lyrics_cache_update_translations
      split: sum.splits option.splits list.splits prod.splits)

lemma lyrics_cache_translate_words:
  "lyrics_cache (snd (translate_words tr order lyrics name sid s)) =
     (case tr name of None \<Rightarrow> lyrics_cache s
      | Some _ \<Rightarrow> cache_store MAX_CACHE_SIZE (lyrics_cache s) sid (translate_batch tr order lyrics))"
proof (cases "tr name")
  case None
  then show ?thesis by (simp add: translate_words_def)
next
  case (Some a)
  let ?b = "translate_batch tr order lyrics"
  let ?c = "cache_store MAX_CACHE_SIZE (lyrics_cache s) sid ?b"
  let ?s1 = "s\<lparr>lyrics_cache := ?c, cache_file := Pickled ?c\<rparr>"
  have "lyrics_cache (snd (then_do (update_translations ?b ?s1)
           (\<lambda>s2. (None, s2\<lparr>translation_complete := True\<rparr>)))) = ?c"
    using lyrics_cache_update_translations [of ?b ?s1]
    by (cases "update_translations ?b ?s1") (auto simp add: then_do_def split: option.splits)
  with Some show ?thesis by (simp add: translate_words_def Let_def)
qed

text \<open>
  Claim C3. From a cache within the capacity, the cache is within the capacity after
  every put of any sequence of puts. A new key put into a full cache removes the first
  entry of the insertion order and nothing else, and goes to the end; putting \<open>cap + 1\<close>
  distinct keys into the empty cache leaves all but the first. In the program the put is
  the one of \<^verbatim>\<open>translate_words\<close>, with the capacity 1000, and the reader of the cache,
  \<^verbatim>\<open>update_lyrics\<close>, leaves the cache as it is.
\<close>

theorem cache_bounded_fifo:
  assumes "distinct (map fst cache)" and "length cache \<le> cap"
  shows "(\<forall>n. length (foldl (\<lambda>c (k, v). cache_store cap c k v) cache (take n puts)) \<le> cap)
       \<and> (0 < cap \<and> length cache = cap \<and> k \<notin> fst ` set cache \<longrightarrow>
            cache_store cap cache k v = tl cache @ [(k, v)])
       \<and> (distinct (map fst new) \<and> length new = Suc cap \<longrightarrow>
            foldl (\<lambda>c (k, v). cache_store cap c k v) [] new = tl new)
       \<and> (length (lyrics_cache s) \<le> MAX_CACHE_SIZE \<longrightarrow>
            length (lyrics_cache (snd (translate_words tr order lyrics name sid s))) \<le> 1000)
       \<and> lyrics_cache (snd (update_lyrics env s)) = lyrics_cache s"
proof (intro conjI allI impI)
  fix n
  show "length (foldl (\<lambda>c (k, v). cache_store cap c k v) cache (take n puts)) \<le> cap"
    using assms(2) by (rule puts_within)
next
  assume a: "0 < cap \<and> length cache = cap \<and> k \<notin> fst ` set cache"
  then have "cache \<noteq> []" by auto
  with a assms(1) show "cache_store cap cache k v = tl cache @ [(k, v)]"
    by (simp add: cache_store_full)
next
  assume "distinct (map fst new) \<and> length new = Suc cap"
  then show "foldl (\<lambda>c (k, v). cache_store cap c k v) [] new = tl new"
    by (simp add: puts_from_empty drop_Suc)
next
  assume a: "length (lyrics_cache s) \<le> MAX_CACHE_SIZE"
  then have "length (cache_store MAX_CACHE_SIZE (lyrics_cache s) sid (translate_batch tr order lyrics))
      \<le> MAX_CACHE_SIZE"
    by (rule cache_store_within)
  with a show "length (lyrics_cache (snd (translate_words tr order lyrics name sid s))) \<le> 1000"
    by (simp add: lyrics_cache_translate_words MAX_CACHE_SIZE_def split: option.splits)
next
  show "lyrics_cache (snd (update_lyrics env s)) = lyrics_cache s"
    by (rule lyrics_cache_update_lyrics)
qed

theorem cache_bounded_fifo_witness:
  "distinct (map fst [(''A'', 1::nat), (''B'', 2)])
   \<and> length [(''A'', 1::nat), (''B'', 2)] \<le> 2
   \<and> length (foldl (\<lambda>c (k, v). cache_store 2 c k v) [(''A'', 1::nat), (''B'', 2)]
         (take 2 [(''C'', 3), (''A'', 4)])) \<le> 2
   \<and> cache_store 2 [(''A'', 1::nat), (''B'', 2)] ''C'' 3 = [(''B'', 2), (''C'', 3)]
   \<and> foldl (\<lambda>c (k, v). cache_store 2 c k v) [] [(''A'', 1::nat), (''B'', 2), (''C'', 3)]
       = [(''B'', 2), (''C'', 3)]
   \<and> length (lyrics_cache (projr (initialize_main_gui Missing))) \<le> MAX_CACHE_SIZE
   \<and> length (lyrics_cache (snd (translate_words (\<lambda>w. Some w) [0]
         [\<lparr>startTimeMs = 0, words = ''la''\<rparr>] ''song'' ''X''
         (projr (initialize_main_gui Missing))))) \<le> 1000"
proof -
  have h1: "distinct (map fst [(''A'', 1::nat), (''B'', 2)])" by simp
  have h2: "length [(''A'', 1::nat), (''B'', 2)] \<le> 2" by simp
  have h3: "0 < (2::nat) \<and> length [(''A'', 1::nat), (''B'', 2)] = 2
      \<and> ''C'' \<notin> fst ` set [(''A'', 1::nat), (''B'', 2)]" by simp
  have h4: "distinct (map fst [(''A'', 1::nat), (''B'', 2), (''C'', 3)])
      \<and> length [(''A'', 1::nat), (''B'', 2), (''C'', 3)] = Suc 2" by simp
  have h5: "length (lyrics_cache (projr (initialize_main_gui Missing))) \<le> MAX_CACHE_SIZE"
    by (simp add: initialize_main_gui_def load_cache_def)
  note t = cache_bounded_fifo [OF h1 h2, where puts = "[(''C'', 3), (''A'', 4)]"
      and k = "''C''" and v = 3 and new = "[(''A'', 1::nat), (''B'', 2), (''C'', 3)]"
      and s = "projr (initialize_main_gui Missing)" and tr = "\<lambda>w. Some w" and order = "[0]"
      and lyrics = "[\<lparr>startTimeMs = 0, words = ''la''\<rparr>]" and name = "''song''" and sid = "''X''"]
  from t h3 h4 h5 have
    "length (foldl (\<lambda>c (k, v). cache_store 2 c k v) [(''A'', 1::nat), (''B'', 2)]
         (take 2 [(''C'', 3), (''A'', 4)])) \<le> 2"
    and "cache_store 2 [(''A'', 1::nat), (''B'', 2)] ''C'' 3 = tl [(''A'', 1::nat), (''B'', 2)] @ [(''C'', 3)]"
    and "foldl (\<lambda>c (k, v). cache_store 2 c k v) [] [(''A'', 1::nat), (''B'', 2), (''C'', 3)]
       = tl [(''A'', 1::nat), (''B'', 2), (''C'', 3)]"
    and "length (lyrics_cache (snd (translate_words (\<lambda>w. Some w) [0]
         [\<lparr>startTimeMs = 0, words = ''la''\<rparr>] ''song'' ''X''
         (projr (initialize_main_gui Missing))))) \<le> 1000"
    by blast+
  with h1 h2 h5 show ?thesis by simp
qed

text \<open>
  Claim C7. A put with a key that the cache holds changes the value of that key and
  nothing else: the keys keep their order and the other values stay. So with capacity 2,
  after the puts of A, B, A again and C, the key that has gone is A.
\<close>

theorem overwrite_keeps_position:
  assumes "k \<in> fst ` set cache" and "length cache \<le> cap"
  shows "map fst (cache_store cap cache k v) = map fst cache
       \<and> map_of (cache_store cap cache k v) k = Some v
       \<and> (\<forall>k'. k' \<noteq> k \<longrightarrow> map_of (cache_store cap cache k v) k' = map_of cache k')
       \<and> (a \<noteq> b \<and> a \<noteq> c \<and> b \<noteq> c \<longrightarrow>
            cache_store 2 (cache_store 2 (cache_store 2 (cache_store 2 [] a va) b vb) a va') c vc
              = [(b, vb), (c, vc)])"
proof -
  have e: "cache_store cap cache k v = dict_set cache k v"
    using assms by (rule cache_store_present)
  have "a \<noteq> b \<and> a \<noteq> c \<and> b \<noteq> c \<longrightarrow>
          cache_store 2 (cache_store 2 (cache_store 2 (cache_store 2 [] a va) b vb) a va') c vc
            = [(b, vb), (c, vc)]"
    by (auto simp add: cache_store_def dict_pop_def)
  then show ?thesis
    using assms(1) by (simp add: e keys_dict_set map_of_dict_set)
qed

theorem overwrite_keeps_position_witness:
  "''A'' \<in> fst ` set [(''A'', 1::nat), (''B'', 2)]
   \<and> length [(''A'', 1::nat), (''B'', 2)] \<le> 2
   \<and> map fst (cache_store 2 [(''A'', 1::nat), (''B'', 2)] ''A'' 7) = [''A'', ''B'']
   \<and> map_of (cache_store 2 [(''A'', 1::nat), (''B'', 2)] ''A'' 7) ''A'' = Some 7
   \<and> cache_store 2 (cache_store 2 (cache_store 2 (cache_store 2 [] ''A'' 1) ''B'' 2) ''A'' 7) ''C'' (3::nat)
        = [(''B'', 2), (''C'', 3)]"
proof -
  have h1: "''A'' \<in> fst ` set [(''A'', 1::nat), (''B'', 2)]" by simp
  have h2: "length [(''A'', 1::nat), (''B'', 2)] \<le> 2" by simp
  have h3: "''A'' \<noteq> ''B'' \<and> ''A'' \<noteq> ''C'' \<and> ''B'' \<noteq> ''C''" by simp
  note t = overwrite_keeps_position [OF h1 h2, where v = 7 and a = "''A''" and b = "''B''"
      and c = "''C''" and va = "1::nat" and vb = 2 and va' = 7 and vc = 3]
  from t h3 have
    "map fst (cache_store 2 [(''A'', 1::nat), (''B'', 2)] ''A'' 7) = map fst [(''A'', 1::nat), (''B'', 2)]"
    and "map_of (cache_store 2 [(''A'', 1::nat), (''B'', 2)] ''A'' 7) ''A'' = Some 7"
    and "cache_store 2 (cache_store 2 (cache_store 2 (cache_store 2 [] ''A'' 1) ''B'' 2) ''A'' 7) ''C'' (3::nat)
        = [(''B'', 2), (''C'', 3)]"
    by blast+
  with h1 h2 show ?thesis by simp
qed

subsection \<open>The current line\<close>








subsection \<open>A batch that completes late\<close>









subsection \<open>Exceptions in a tick\<close>

lemma playback_failure_absorbed:
  assumes "song_reply env = Inl e \<or> song_reply env = Inr None"
  shows "update_display env s =
     (None, s\<lparr>song_label := ''No song playing'', album_label := [],
              time_label := ''0:00 / 0:00'', timers := timers s + 1\<rparr>)"
  using assms by (auto simp add: update_display_def get_current_playback_position_def)

text \<open>
  Claim C5. Only the playback query of \<^verbatim>\<open>get_current_playback_position\<close> is inside a
  \<^verbatim>\<open>try\<close>. When the lyrics query raises during the tick of a new track, the exception
  leaves \<^verbatim>\<open>update_display\<close> before the next tick is scheduled: no timer is pending
  afterwards and the poll loop makes no further tick.
\<close>

theorem lyrics_failure_stops_poll_loop:
  "fst (update_display \<lparr>song_reply = Inr (Some \<lparr>item_id = ''X'', item_name = ''chanson'', artists = [''artiste''], album_name = ''album'', duration_ms = 180000, is_playing = True, progress_ms = 1000\<rparr>), song_reply_again = Inr (Some \<lparr>item_id = ''X'', item_name = ''chanson'', artists = [''artiste''], album_name = ''album'', duration_ms = 180000, is_playing = True, progress_ms = 1000\<rparr>), lyrics_reply = Inl ServiceError\<rparr> ((projr (initialize_main_gui Missing))\<lparr>timers := 0\<rparr>)) = Some ServiceError
   \<and> timers (snd (update_display \<lparr>song_reply = Inr (Some \<lparr>item_id = ''X'', item_name = ''chanson'', artists = [''artiste''], album_name = ''album'', duration_ms = 180000, is_playing = True, progress_ms = 1000\<rparr>), song_reply_again = Inr (Some \<lparr>item_id = ''X'', item_name = ''chanson'', artists = [''artiste''], album_name = ''album'', duration_ms = 180000, is_playing = True, progress_ms = 1000\<rparr>), lyrics_reply = Inl ServiceError\<rparr> ((projr (initialize_main_gui Missing))\<lparr>timers := 0\<rparr>))) = 0
   \<and> timers (poll_loop [\<lparr>song_reply = Inr (Some \<lparr>item_id = ''X'', item_name = ''chanson'', artists = [''artiste''], album_name = ''album'', duration_ms = 180000, is_playing = True, progress_ms = 1000\<rparr>), song_reply_again = Inr (Some \<lparr>item_id = ''X'', item_name = ''chanson'', artists = [''artiste''], album_name = ''album'', duration_ms = 180000, is_playing = True, progress_ms = 1000\<rparr>), lyrics_reply = Inl ServiceError\<rparr>] (projr (initialize_main_gui Missing))) = 0
   \<and> poll_loop [\<lparr>song_reply = Inr (Some \<lparr>item_id = ''X'', item_name = ''chanson'', artists = [''artiste''], album_name = ''album'', duration_ms = 180000, is_playing = True, progress_ms = 1000\<rparr>), song_reply_again = Inr (Some \<lparr>item_id = ''X'', item_name = ''chanson'', artists = [''artiste''], album_name = ''album'', duration_ms = 180000, is_playing = True, progress_ms = 1000\<rparr>), lyrics_reply = Inl ServiceError\<rparr>, \<lparr>song_reply = Inr None, song_reply_again = Inr None, lyrics_reply = Inr None\<rparr>] (projr (initialize_main_gui Missing)) = poll_loop [\<lparr>song_reply = Inr (Some \<lparr>item_id = ''X'', item_name = ''chanson'', artists = [''artiste''], album_name = ''album'', duration_ms = 180000, is_playing = True, progress_ms = 1000\<rparr>), song_reply_again = Inr (Some \<lparr>item_id = ''X'', item_name = ''chanson'', artists = [''artiste''], album_name = ''album'', duration_ms = 180000, is_playing = True, progress_ms = 1000\<rparr>), lyrics_reply = Inl ServiceError\<rparr>] (projr (initialize_main_gui Missing))"
  by code_simp

subsection \<open>The persisted cache at start-up\<close>

text \<open>
  Claim C8. A missing file gives the empty cache and the first tick is scheduled. A file
  that \<^verbatim>\<open>pickle.load\<close> rejects makes \<^verbatim>\<open>initialize_main_gui\<close> raise instead.
\<close>

theorem corrupt_cache_aborts_start:
  "initialize_main_gui Corrupt = Inl UnpicklingError
   \<and> map_sum id lyrics_cache (initialize_main_gui Missing) = Inr []
   \<and> map_sum id timers (initialize_main_gui Missing) = Inr 1"
  by (simp add: initialize_main_gui_def load_cache_def)

subsection \<open>Tracks without lyrics\<close>

lemma no_lyrics_placeholder:
  assumes "song_reply_again env = Inr (Some p)" and "artists p = a # as"
    and "lyrics_reply env = Inr reply"
    and "lyrics_data_of reply = None \<or> (\<exists>b. lyrics_data_of reply = Some (b, []))"
  shows "update_lyrics env s =
     (None, s\<lparr>song_label := item_name p @ '' - '' @ a, tree := [placeholder], selection := None\<rparr>)"
  using assms by (auto simp add: update_lyrics_def Let_def)

lemma same_track_no_fetch:
  assumes "song_reply env = Inr (Some p)" and "current_song_id s = Some (item_id p)"
  shows "update_display (env\<lparr>song_reply_again := x, lyrics_reply := y\<rparr>) s = update_display env s"
  using assms
  by (simp add: update_display_def get_current_playback_position_def Let_def split: list.splits)

text \<open>
  Claim C9. A reply without lines shows the placeholder row, and the lyrics are not
  fetched again while the track stays current (the two lemmas above). A reply with
  lines but without the key \<^verbatim>\<open>language\<close> is not caught by the test of line 535: the rows
  are deleted, \<^verbatim>\<open>KeyError\<close> is raised before any row is inserted, and no next tick is
  scheduled.
\<close>

theorem missing_language_leaves_no_row:
  "fst (update_display \<lparr>song_reply = Inr (Some \<lparr>item_id = ''X'', item_name = ''chanson'', artists = [''artiste''], album_name = ''album'', duration_ms = 180000, is_playing = True, progress_ms = 1000\<rparr>), song_reply_again = Inr (Some \<lparr>item_id = ''X'', item_name = ''chanson'', artists = [''artiste''], album_name = ''album'', duration_ms = 180000, is_playing = True, progress_ms = 1000\<rparr>), lyrics_reply = Inr (Some \<lparr>lyrics_key = Some \<lparr>lines_key = Some [\<lparr>startTimeMs = 0, words = ''la''\<rparr>], language_key = None\<rparr>\<rparr>)\<rparr> ((projr (initialize_main_gui Missing))\<lparr>timers := 0\<rparr>)) = Some KeyError
   \<and> tree (snd (update_display \<lparr>song_reply = Inr (Some \<lparr>item_id = ''X'', item_name = ''chanson'', artists = [''artiste''], album_name = ''album'', duration_ms = 180000, is_playing = True, progress_ms = 1000\<rparr>), song_reply_again = Inr (Some \<lparr>item_id = ''X'', item_name = ''chanson'', artists = [''artiste''], album_name = ''album'', duration_ms = 180000, is_playing = True, progress_ms = 1000\<rparr>), lyrics_reply = Inr (Some \<lparr>lyrics_key = Some \<lparr>lines_key = Some [\<lparr>startTimeMs = 0, words = ''la''\<rparr>], language_key = None\<rparr>\<rparr>)\<rparr> ((projr (initialize_main_gui Missing))\<lparr>timers := 0\<rparr>))) = []
   \<and> timers (snd (update_display \<lparr>song_reply = Inr (Some \<lparr>item_id = ''X'', item_name = ''chanson'', artists = [''artiste''], album_name = ''album'', duration_ms = 180000, is_playing = True, progress_ms = 1000\<rparr>), song_reply_again = Inr (Some \<lparr>item_id = ''X'', item_name = ''chanson'', artists = [''artiste''], album_name = ''album'', duration_ms = 180000, is_playing = True, progress_ms = 1000\<rparr>), lyrics_reply = Inr (Some \<lparr>lyrics_key = Some \<lparr>lines_key = Some [\<lparr>startTimeMs = 0, words = ''la''\<rparr>], language_key = None\<rparr>\<rparr>)\<rparr> ((projr (initialize_main_gui Missing))\<lparr>timers := 0\<rparr>))) = 0"
  by code_simp

end
